theory Spec2Isabelle
  imports Complex_Main "HOL-Library.Sublist" "HOL-Library.Multiset"
begin

chapter \<open>The program\<close>

section \<open>Data model\<close>

text \<open>
  The roster is a pandas DataFrame. A cell holds a string, a float, an integer or the
  missing value. Floats are modelled as exact rationals: the grade points, the credit
  weights and the SGPA are the numbers the decimal literals of the source denote, and
  arithmetic on them is exact.
\<close>

datatype cell = Str string | Num rat | IntV int | NaN

text \<open>
  A row gives the value of each column label; a frame is the ordered list of its column
  labels and the ordered list of its rows. A label that is not among \<open>columns\<close> is
  not part of the frame, whatever the row function returns there. Labels are unique in a
  frame, as they are in every frame \<open>read_csv\<close> and \<open>read_excel\<close> build.
\<close>

type_synonym row = "string \<Rightarrow> cell"

record dataframe =
  columns :: "string list"
  rows :: "row list"

text \<open>The cells of a frame, column by column for each row: what an export prints.\<close>

definition table :: "dataframe \<Rightarrow> string list \<times> cell list list" where
  "table df = (columns df, map (\<lambda>r. map r (columns df)) (rows df))"

datatype py_error = KeyError | ValueError | MergeError

text \<open>A grade record is one row of \<open>grades_df[['Index_No', 'Grade']]\<close>.\<close>

type_synonym grade_record = "string \<times> string"

section \<open>config.py\<close>

definition GRADE_POINTS :: "string \<rightharpoonup> rat" where
  "GRADE_POINTS = map_of
     [(''A+'', 4), (''A'', 4), (''A-'', 37 / 10),
      (''B+'', 33 / 10), (''B'', 3), (''B-'', 27 / 10),
      (''C+'', 23 / 10), (''C'', 2), (''C-'', 17 / 10),
      (''D'', 1), (''I-we'', 0), (''I-ca'', 0), (''F'', 0), (''AB'', 0)]"

section \<open>data\_processor.py: merge\_grades\_with\_department\<close>

text \<open>
  \<open>DataFrame.merge(how='left')\<close> of pandas 2: labels that occur on both sides get the
  suffixes \<open>_x\<close> and \<open>_y\<close>, a duplicate label created by a suffix raises MergeError,
  the result keeps the order of the left rows, and a left row with several matching right
  rows is repeated once for each of them, in the order of the right rows. A left row
  without a match gets missing values in the right columns. Joining a key column of
  numeric dtype (no string in it) with the string keys of the records raises ValueError
  unless one side is empty.
\<close>

definition is_Str :: "cell \<Rightarrow> bool" where
  "is_Str c = (case c of Str s \<Rightarrow> True | _ \<Rightarrow> False)"

definition renamer :: "string list \<Rightarrow> string \<Rightarrow> string \<Rightarrow> string" where
  "renamer to_rename sfx x = (if x \<in> set to_rename then x @ sfx else x)"

definition rename_row :: "string list \<Rightarrow> string \<Rightarrow> row \<Rightarrow> row" where
  "rename_row to_rename sfx r = fold (\<lambda>c r'. r'(c @ sfx := r c)) to_rename r"

definition left_join_row :: "string \<Rightarrow> string \<Rightarrow> grade_record list \<Rightarrow> row \<Rightarrow> row \<Rightarrow> row list" where
  "left_join_row key_label grade_label right l l' =
     (case filter (\<lambda>(index_no, grade). l ''Index'' = Str index_no) right of
        [] \<Rightarrow> [l'(key_label := NaN, grade_label := NaN)]
      | ms \<Rightarrow> map (\<lambda>(index_no, grade). l'(key_label := Str index_no, grade_label := Str grade)) ms)"

definition pd_merge_left :: "dataframe \<Rightarrow> grade_record list \<Rightarrow> string \<Rightarrow> py_error + dataframe" where
  "pd_merge_left left right grade_column =
     (if ''Index'' \<notin> set (columns left) then Inl KeyError
      else if rows left \<noteq> [] \<and> right \<noteq> [] \<and> (\<forall>r \<in> set (rows left). \<not> is_Str (r ''Index''))
        then Inl ValueError
      else
        let to_rename = filter (\<lambda>c. c \<in> set [''Index_No'', grade_column]) (columns left);
            llabels = map (renamer to_rename ''_x'') (columns left);
            rlabels = map (renamer to_rename ''_y'') [''Index_No'', grade_column]
        in if to_rename \<noteq> [] \<and> \<not> distinct llabels then Inl MergeError
           else Inr \<lparr>columns = llabels @ rlabels,
                     rows = concat (map (\<lambda>l. left_join_row (rlabels ! 0) (rlabels ! 1) right l
                                              (rename_row to_rename ''_x'' l)) (rows left))\<rparr>)"

definition drop_column :: "string \<Rightarrow> dataframe \<Rightarrow> dataframe" where
  "drop_column name df =
     \<lparr>columns = filter (\<lambda>c. c \<noteq> name) (columns df),
      rows = map (\<lambda>r. r(name := NaN)) (rows df)\<rparr>"

definition fillna_column :: "string \<Rightarrow> cell \<Rightarrow> dataframe \<Rightarrow> dataframe" where
  "fillna_column name v df =
     df\<lparr>rows := map (\<lambda>r. r(name := (if r name = NaN then v else r name))) (rows df)\<rparr>"

definition merge_grades_with_department ::
    "dataframe \<Rightarrow> grade_record list \<Rightarrow> string \<Rightarrow> py_error + dataframe" where
  "merge_grades_with_department dept_df grades_df module_code =
     (let grade_column = module_code @ ''_Grade'' in
      case pd_merge_left dept_df grades_df grade_column of
        Inl e \<Rightarrow> Inl e
      | Inr merged_df \<Rightarrow>
          let merged_df = (if ''Index_No'' \<in> set (columns merged_df)
                           then drop_column ''Index_No'' merged_df else merged_df)
          in if grade_column \<notin> set (columns merged_df) then Inl KeyError
             else Inr (fillna_column grade_column (Str ''N/A'') merged_df))"

text \<open>
  The grades a roster row with key \<open>k\<close> receives from the records: those of the records
  with that student id, in the order of the records, or the sentinel when there is none.
\<close>

definition matched_grades :: "grade_record list \<Rightarrow> cell \<Rightarrow> cell list" where
  "matched_grades recs k =
     (case filter (\<lambda>(index_no, grade). k = Str index_no) recs of
        [] \<Rightarrow> [Str ''N/A'']
      | ms \<Rightarrow> map (\<lambda>(index_no, grade). Str grade) ms)"

definition has_record :: "grade_record list \<Rightarrow> cell \<Rightarrow> bool" where
  "has_record recs k = (filter (\<lambda>(index_no, grade). k = Str index_no) recs \<noteq> [])"

text \<open>
  Rosters for the scenarios: one identity column \<open>Index\<close> and one row for each student
  id; and a roster that also has a column labelled \<open>Index_No\<close>, the label the merge
  uses for the records' key.
\<close>

definition roster_of :: "string list \<Rightarrow> dataframe" where
  "roster_of ids = \<lparr>columns = [''Index''], rows = map (\<lambda>i. (\<lambda>c. NaN)(''Index'' := Str i)) ids\<rparr>"

definition roster_with_key_column :: dataframe where
  "roster_with_key_column =
     \<lparr>columns = [''Index'', ''Index_No''],
      rows = [(\<lambda>c. NaN)(''Index'' := Str ''200145A'', ''Index_No'' := IntV 1)]\<rparr>"

section \<open>data\_processor.py: calculate\_sgpa\_and\_rank\<close>

text \<open>\<open>col.endswith('_Grade')\<close> and \<open>col.replace('_Grade', '')\<close>: the replacement removes
  every occurrence of the pattern, scanning from the left, not only a final one.\<close>

definition endswith :: "string \<Rightarrow> string \<Rightarrow> bool" where
  "endswith s sfx = (drop (length s - length sfx) s = sfx)"

fun remove_all :: "string \<Rightarrow> string \<Rightarrow> string" where
  "remove_all old [] = []"
| "remove_all old (c # cs) =
     (if old \<noteq> [] \<and> prefix old (c # cs) then remove_all old (drop (length old - 1) cs)
      else c # remove_all old cs)"

text \<open>
  Python's \<open>round(x, ndigits)\<close>, on the exact value: to the nearest multiple of
  \<open>10^-ndigits\<close>, a tie going to the even one.
\<close>

definition round_half_even :: "rat \<Rightarrow> int" where
  "round_half_even y =
     (let f = \<lfloor>y\<rfloor>; d = y - of_int f
      in if d < 1 / 2 then f else if 1 / 2 < d then f + 1 else if even f then f else f + 1)"

definition py_round :: "rat \<Rightarrow> nat \<Rightarrow> rat" where
  "py_round x ndigits = of_int (round_half_even (x * 10 ^ ndigits)) / 10 ^ ndigits"

text \<open>
  One pass of the loop body of \<open>calc_student_sgpa\<close> over a grade column. The test
  \<open>pd.notna(grade) and grade in GRADE_POINTS and module_code in weights\<close> holds only for
  a string cell: the keys of \<open>GRADE_POINTS\<close> are strings.
\<close>

definition sgpa_step :: "(string \<rightharpoonup> rat) \<Rightarrow> row \<Rightarrow> string \<Rightarrow> rat \<times> rat \<Rightarrow> rat \<times> rat" where
  "sgpa_step weights r col acc =
     (case acc of (total_weighted_points, total_credits) \<Rightarrow>
        (let grade = r col; module_code = remove_all ''_Grade'' col
         in case grade of
              Str g \<Rightarrow>
                (case (GRADE_POINTS g, weights module_code) of
                   (Some points, Some weight) \<Rightarrow>
                     (total_weighted_points + points * weight, total_credits + weight)
                 | _ \<Rightarrow> acc)
            | _ \<Rightarrow> acc))"

definition calc_student_sgpa :: "string list \<Rightarrow> (string \<rightharpoonup> rat) \<Rightarrow> row \<Rightarrow> rat" where
  "calc_student_sgpa grade_columns weights r =
     (case fold (sgpa_step weights r) grade_columns (0, 0) of
        (total_weighted_points, total_credits) \<Rightarrow>
          if total_credits = 0 then 0 else py_round (total_weighted_points / total_credits) 3)"

text \<open>\<open>df[name] = series\<close>: an existing column is overwritten where it stands, a new one is
  appended as the last column. \<open>f r\<close> is the value of the series at row \<open>r\<close>.\<close>

definition set_column :: "string \<Rightarrow> (row \<Rightarrow> cell) \<Rightarrow> dataframe \<Rightarrow> dataframe" where
  "set_column name f df =
     \<lparr>columns = (if name \<in> set (columns df) then columns df else columns df @ [name]),
      rows = map (\<lambda>r. r(name := f r)) (rows df)\<rparr>"

definition num_of :: "cell \<Rightarrow> rat" where
  "num_of c = (case c of Num q \<Rightarrow> q | IntV k \<Rightarrow> of_int k | _ \<Rightarrow> 0)"

definition int_of :: "cell \<Rightarrow> int" where
  "int_of c = (case c of IntV k \<Rightarrow> k | _ \<Rightarrow> 0)"

text \<open>
  \<open>Series.rank(method='min', ascending=False)\<close>: a value's rank is one more than the
  number of values strictly greater, so tied values share the lowest rank of their group.
\<close>

definition rank_min_desc :: "rat list \<Rightarrow> rat \<Rightarrow> int" where
  "rank_min_desc vals v = 1 + int (length (filter (\<lambda>u. v < u) vals))"

text \<open>
  \<open>df.sort_values('Rank')\<close> is modelled as a sort that keeps rows of equal rank in the
  order they had.
\<close>

definition sort_values_Rank :: "dataframe \<Rightarrow> dataframe" where
  "sort_values_Rank df = df\<lparr>rows := sort_key (\<lambda>r. int_of (r ''Rank'')) (rows df)\<rparr>"

definition calculate_sgpa_and_rank :: "dataframe \<Rightarrow> (string \<rightharpoonup> rat) \<Rightarrow> dataframe" where
  "calculate_sgpa_and_rank df weights =
     (let grade_columns = filter (\<lambda>col. endswith col ''_Grade'') (columns df);
          df = set_column ''SGPA'' (\<lambda>r. Num (calc_student_sgpa grade_columns weights r)) df;
          sgpa = map (\<lambda>r. num_of (r ''SGPA'')) (rows df);
          df = set_column ''Rank'' (\<lambda>r. IntV (rank_min_desc sgpa (num_of (r ''SGPA'')))) df
      in sort_values_Rank df)"

definition get_existing_modules :: "dataframe \<Rightarrow> string list" where
  "get_existing_modules df =
     map (remove_all ''_Grade'') (filter (\<lambda>col. endswith col ''_Grade'') (columns df))"

text \<open>
  A roster with one grade column for each of the given modules: a student is an id and the
  list of the grades in these modules.
\<close>

definition graded_roster :: "string list \<Rightarrow> (string \<times> string list) list \<Rightarrow> dataframe" where
  "graded_roster modules students =
     \<lparr>columns = ''Index'' # map (\<lambda>m. m @ ''_Grade'') modules,
      rows = map (\<lambda>(i, gs). fold (\<lambda>(m, g) r. r(m @ ''_Grade'' := Str g)) (zip modules gs)
                               ((\<lambda>c. NaN)(''Index'' := Str i))) students\<rparr>"

subsection \<open>The SGPA in the words of the specification\<close>





section \<open>security.py: sanitize\_string\<close>

text \<open>
  Text is a list of characters with code points below 256. \<open>re.sub\<close> with the class
  \<open>[<>{}|\\^~\[\]`]\<close> removes each of these eleven characters.
\<close>

definition sanitize_string :: "string \<Rightarrow> string" where
  "sanitize_string s = filter (\<lambda>c. c \<notin> set (''<>{}|^~[]'' @ [CHR 0x5C, CHR 0x60])) s"

section \<open>pdf\_processor.py\<close>

subsection \<open>The character classes of the patterns\<close>

text \<open>
  \<open>\d\<close>, \<open>[A-Z]\<close>, \<open>[a-z]\<close> and \<open>\s\<close> on code points below 256. For a \<open>str\<close>
  pattern \<open>\s\<close> is every character \<open>str.isspace\<close> accepts: tab to carriage return, the
  four separators 28 to 31, the space, and the code points 133 and 160. \<open>str.strip\<close>
  removes the same characters from both ends.
\<close>

definition is_digit :: "char \<Rightarrow> bool" where
  "is_digit c = (let n = (of_char c :: nat) in 48 \<le> n \<and> n \<le> 57)"

definition is_upper :: "char \<Rightarrow> bool" where
  "is_upper c = (let n = (of_char c :: nat) in 65 \<le> n \<and> n \<le> 90)"

definition is_lower :: "char \<Rightarrow> bool" where
  "is_lower c = (let n = (of_char c :: nat) in 97 \<le> n \<and> n \<le> 122)"

definition is_space :: "char \<Rightarrow> bool" where
  "is_space c = (of_char c \<in> {9, 10, 11, 12, 13, 28, 29, 30, 31, 32, 133, 160 :: nat})"

definition strip :: "string \<Rightarrow> string" where
  "strip s = rev (dropWhile is_space (rev (dropWhile is_space s)))"

text \<open>
  A greedy repetition of a character class followed by the rest of the pattern \<open>k\<close>: the
  matcher first takes the whole run of \<open>n\<close> characters and gives one back at a time while
  the rest fails, down to \<open>lo\<close> characters.
\<close>

fun greedy :: "nat \<Rightarrow> nat \<Rightarrow> (string \<Rightarrow> 'a option) \<Rightarrow> string \<Rightarrow> 'a option" where
  "greedy lo 0 k s = (if lo = 0 then k s else None)"
| "greedy lo (Suc n) k s =
     (if Suc n < lo then None
      else case k (drop (Suc n) s) of Some r \<Rightarrow> Some r | None \<Rightarrow> greedy lo n k s)"

definition greedy_spaces :: "nat \<Rightarrow> (string \<Rightarrow> 'a option) \<Rightarrow> string \<Rightarrow> 'a option" where
  "greedy_spaces lo k s = greedy lo (length (takeWhile is_space s)) k s"

text \<open>\<open>[A-Z]{2}\d{4}\<close> at the head of the text.\<close>

definition module_code_at :: "string \<Rightarrow> bool" where
  "module_code_at s =
     (6 \<le> length s \<and> is_upper (s ! 0) \<and> is_upper (s ! 1) \<and>
      is_digit (s ! 2) \<and> is_digit (s ! 3) \<and> is_digit (s ! 4) \<and> is_digit (s ! 5))"

subsection \<open>extract\_module\_info\<close>

text \<open>
  The lookahead \<open>(?=\n|Intake|$)\<close>: without the MULTILINE flag \<open>$\<close> holds at the end of
  the text and before a final newline, which the first alternative already covers.
\<close>

definition stop_ahead :: "string \<Rightarrow> bool" where
  "stop_ahead s = (s = [] \<or> hd s = CHR ''\<newline>'' \<or> prefix ''Intake'' s)"

definition name_char :: "char \<Rightarrow> bool" where
  "name_char c = (is_upper c \<or> is_lower c \<or> is_space c)"

text \<open>
  The lazy group \<open>([A-Za-z\s]+?)\<close> before the lookahead: at least one character, then as
  few more as the lookahead allows.
\<close>

fun lazy_name :: "string \<Rightarrow> string \<Rightarrow> string option" where
  "lazy_name acc [] = None"
| "lazy_name acc (c # cs) =
     (if name_char c
      then (if stop_ahead cs then Some (acc @ [c]) else lazy_name (acc @ [c]) cs)
      else None)"

text \<open>The pattern \<open>([A-Z]{2}\d{4})\s*-\s*([A-Za-z\s]+?)(?=\n|Intake|$)\<close> at the head of the
  text: its two groups.\<close>

definition module_pattern_at :: "string \<Rightarrow> (string \<times> string) option" where
  "module_pattern_at s =
     (if module_code_at s
      then greedy_spaces 0
             (\<lambda>s1. case s1 of
                      [] \<Rightarrow> None
                    | c # s2 \<Rightarrow>
                        if c = CHR ''-''
                        then greedy_spaces 0 (\<lambda>s3. map_option (\<lambda>name. (take 6 s, name)) (lazy_name [] s3)) s2
                        else None)
             (drop 6 s)
      else None)"

text \<open>\<open>re.search\<close>: the match at the leftmost position that has one.\<close>

fun re_search :: "(string \<Rightarrow> 'a option) \<Rightarrow> string \<Rightarrow> 'a option" where
  "re_search pattern_at [] = pattern_at []"
| "re_search pattern_at (c # cs) =
     (case pattern_at (c # cs) of Some m \<Rightarrow> Some m | None \<Rightarrow> re_search pattern_at cs)"

definition code_pattern_at :: "string \<Rightarrow> string option" where
  "code_pattern_at s = (if module_code_at s then Some (take 6 s) else None)"

definition extract_module_info :: "string \<Rightarrow> string \<times> string" where
  "extract_module_info text =
     (case re_search module_pattern_at text of
        Some (group1, group2) \<Rightarrow> (strip group1, strip group2)
      | None \<Rightarrow>
          (case re_search code_pattern_at text of
             Some group0 \<Rightarrow> (group0, ''Unknown Module'')
           | None \<Rightarrow> (''Unknown'', ''Unknown Module'')))"

subsection \<open>parse\_grades\<close>

text \<open>
  The group \<open>(I-we|I-ca|[A-Z][+-]?|F|D)\<close>, the last item of the pattern: the first
  alternative that matches is the group. It returns the token and what follows it.
\<close>

definition grade_token_at :: "string \<Rightarrow> (string \<times> string) option" where
  "grade_token_at s =
     (if prefix ''I-we'' s then Some (''I-we'', drop 4 s)
      else if prefix ''I-ca'' s then Some (''I-ca'', drop 4 s)
      else if s \<noteq> [] \<and> is_upper (hd s)
        then (if tl s \<noteq> [] \<and> (hd (tl s) = CHR ''+'' \<or> hd (tl s) = CHR ''-'')
              then Some (take 2 s, drop 2 s) else Some (take 1 s, drop 1 s))
      else if prefix ''F'' s then Some (''F'', drop 1 s)
      else if prefix ''D'' s then Some (''D'', drop 1 s)
      else None)"

text \<open>The pattern \<open>(\d{6}[A-Z])\s+(I-we|I-ca|[A-Z][+-]?|F|D)\<close> at the head of the text:
  its two groups and the text after the match.\<close>

definition grade_pattern_at :: "string \<Rightarrow> ((string \<times> string) \<times> string) option" where
  "grade_pattern_at s =
     (if 7 \<le> length s \<and> list_all is_digit (take 6 s) \<and> is_upper (s ! 6)
      then greedy_spaces 1
             (\<lambda>s1. map_option (\<lambda>(grade, rest). ((take 7 s, grade), rest)) (grade_token_at s1))
             (drop 7 s)
      else None)"

lemma grade_token_at_shorter:
  "grade_token_at s = Some (g, rest) \<Longrightarrow> length rest < length s"
  by (auto simp: grade_token_at_def prefix_def split: if_splits)

lemma greedy_shorter:
  assumes "\<And>s1 r. k s1 = Some r \<Longrightarrow> length (snd r) \<le> length s1"
  shows "greedy lo n k s = Some r \<Longrightarrow> length (snd r) \<le> length s"
proof (induction n)
  case 0
  then show ?case using assms by (auto split: if_splits)
next
  case (Suc n)
  then show ?case using assms[of "drop (Suc n) s"]
    by (auto split: if_splits option.splits)
qed

lemma grade_pattern_at_shorter:
  assumes "grade_pattern_at s = Some (m, rest)"
  shows "length rest < length s"
proof -
  have "length (snd r) \<le> length s1"
    if "map_option (\<lambda>(grade, rest). ((take 7 s, grade), rest)) (grade_token_at s1) = Some r" for s1 r
    using that grade_token_at_shorter[of s1] by (cases r) force
  then have "length (snd (m, rest)) \<le> length (drop 7 s)"
    using assms unfolding grade_pattern_at_def greedy_spaces_def
    by (intro greedy_shorter[where r = "(m, rest)"]) (auto split: if_splits)
  moreover have "7 \<le> length s"
    using assms by (auto simp: grade_pattern_at_def split: if_splits)
  ultimately show ?thesis by simp
qed

text \<open>\<open>re.findall\<close>: the matches from left to right, each search starting where the match
  before it ended.\<close>

function findall_grades :: "string \<Rightarrow> (string \<times> string) list" where
  "findall_grades [] = []"
| "findall_grades (c # cs) =
     (case grade_pattern_at (c # cs) of
        Some (m, rest) \<Rightarrow> m # findall_grades rest
      | None \<Rightarrow> findall_grades cs)"
  by pat_completeness auto
termination
  by (relation "measure length") (auto dest: grade_pattern_at_shorter)

definition parse_grades :: "string \<Rightarrow> grade_record list" where
  "parse_grades text =
     map (\<lambda>(index_no, grade). (sanitize_string index_no, sanitize_string grade)) (findall_grades text)"

subsection \<open>The extractor in the words of the specification\<close>






subsection \<open>process\_pdf\<close>

text \<open>
  \<open>extract_text_from_pdf_bytes\<close> runs the PDF libraries; it is a parameter here. It returns
  the empty text when both libraries fail or no page has text. The grades frame is
  returned as its records, the columns \<open>Index_No\<close> and \<open>Grade\<close>; its columns
  \<open>Module_Code\<close> and \<open>Module_Name\<close> repeat the other two components of the result.
\<close>

definition process_pdf ::
    "('b \<Rightarrow> string) \<Rightarrow> 'b \<Rightarrow> string \<Rightarrow> grade_record list option \<times> string \<times> string" where
  "process_pdf extract_text_from_pdf_bytes pdf_bytes filename =
     (let text = extract_text_from_pdf_bytes pdf_bytes
      in if text = [] then (None, [], [])
         else (case extract_module_info text of
                 (module_code, module_name) \<Rightarrow>
                   let grades_data = parse_grades text
                   in if grades_data = [] then (None, module_code, module_name)
                      else (Some grades_data, module_code, module_name)))"

section \<open>app.py: adding a result document\<close>

text \<open>
  The handler of the button that adds a result (lines 198 to 231): the part of the session
  state it reads and writes, and what it reports. The merge is a parameter of
  \<open>add_result_with\<close>, so that a result can be shown not to depend on it; the handler itself
  is \<open>add_result\<close>.
\<close>

record session_state =
  department_df :: dataframe
  weights :: "string \<rightharpoonup> rat"
  processed_modules :: "string list"

datatype report = Could_not_extract | Added | Raised py_error

definition add_result_with ::
    "(dataframe \<Rightarrow> grade_record list \<Rightarrow> string \<Rightarrow> py_error + dataframe) \<Rightarrow>
     ('b \<Rightarrow> string) \<Rightarrow> 'b \<Rightarrow> string \<Rightarrow> rat \<Rightarrow> session_state \<Rightarrow> report \<times> session_state" where
  "add_result_with merge_step extract_text cached_bytes cached_name new_weight st =
     (case process_pdf extract_text cached_bytes cached_name of
        (grades_df, module_code, module_name) \<Rightarrow>
          (case grades_df of
             None \<Rightarrow> (Could_not_extract, st)
           | Some grades \<Rightarrow>
               if grades = [] then (Could_not_extract, st)
               else
                 let old_col = module_code @ ''_Grade'';
                     st = (if module_code \<in> set (processed_modules st) \<and>
                              old_col \<in> set (columns (department_df st))
                           then st\<lparr>department_df := drop_column old_col (department_df st)\<rparr>
                           else st)
                 in case merge_step (department_df st) grades module_code of
                      Inl e \<Rightarrow> (Raised e, st)
                    | Inr merged \<Rightarrow>
                        (Added,
                         st\<lparr>department_df := merged,
                            weights := (weights st)(module_code \<mapsto> new_weight),
                            processed_modules :=
                              (if module_code \<in> set (processed_modules st) then processed_modules st
                               else processed_modules st @ [module_code])\<rparr>)))"

definition add_result ::
    "('b \<Rightarrow> string) \<Rightarrow> 'b \<Rightarrow> string \<Rightarrow> rat \<Rightarrow> session_state \<Rightarrow> report \<times> session_state" where
  "add_result = add_result_with merge_grades_with_department"

chapter \<open>Properties\<close>

section \<open>merge\_grades\_with\_department\<close>

lemmas merge_defs = merge_grades_with_department_def pd_merge_left_def is_Str_def renamer_def
  rename_row_def left_join_row_def drop_column_def fillna_column_def table_def Let_def roster_of_def

subsection \<open>The shape of a merge that returns\<close>

lemma grade_label_neq [simp]:
  "code @ ''_Grade'' \<noteq> ''Index_No''" "code @ ''_Grade'' \<noteq> ''Index''"
  "code @ ''_Grade'' \<noteq> ''Index_No_x''" "code @ ''_Grade'' \<noteq> ''Index_No_y''"
  "(code @ ''_Grade'') @ ''_x'' \<noteq> code @ ''_Grade''"
  "(code @ ''_Grade'') @ ''_y'' \<noteq> code @ ''_Grade''"
  "code @ ''_Grade_x'' \<noteq> code @ ''_Grade''"
  "code @ ''_Grade_y'' \<noteq> code @ ''_Grade''"
  by (auto dest: arg_cong[where f = last] )

lemma renamed_label_neq [simp]: "c @ ''_x'' \<noteq> ''Index''" "c @ ''_x'' \<noteq> ''Index_No''"
  "c @ ''_x'' \<noteq> code @ ''_Grade''"
  by (auto dest: arg_cong[where f = last] )

lemma pd_merge_left_Inr:
  assumes "pd_merge_left left right gc = Inr m"
  defines "tr \<equiv> filter (\<lambda>c. c \<in> set [''Index_No'', gc]) (columns left)"
  shows "columns m = map (renamer tr ''_x'') (columns left) @ map (renamer tr ''_y'') [''Index_No'', gc]"
    and "rows m = concat (map (\<lambda>l. left_join_row (renamer tr ''_y'' ''Index_No'') (renamer tr ''_y'' gc) right l
                                              (rename_row tr ''_x'' l)) (rows left))"
    and "''Index'' \<in> set (columns left)"
  using assms(1) unfolding pd_merge_left_def tr_def Let_def
  by (simp_all split: if_splits) auto

lemma merge_needs_fresh_label:
  assumes "merge_grades_with_department df recs code = Inr out"
  shows "code @ ''_Grade'' \<notin> set (columns df)"
proof
  assume in_cols: "code @ ''_Grade'' \<in> set (columns df)"
  let ?gc = "code @ ''_Grade''"
  let ?tr = "filter (\<lambda>c. c \<in> set [''Index_No'', ?gc]) (columns df)"
  obtain m where m: "pd_merge_left df recs ?gc = Inr m"
    using assms by (auto simp: merge_grades_with_department_def Let_def split: sum.splits)
  have l: "?gc \<notin> set (map (renamer ?tr ''_x'') (columns df))"
    by (auto simp: renamer_def)
  have r: "?gc \<notin> set (map (renamer ?tr ''_y'') [''Index_No'', ?gc])"
    using in_cols by (auto simp: renamer_def)
  have "?gc \<notin> set (columns m)"
    using l r unfolding pd_merge_left_Inr(1)[OF m] by simp
  then show False using assms m
    by (simp add: merge_grades_with_department_def drop_column_def split: if_splits)
qed

lemma case_list_if: "(case xs of [] \<Rightarrow> a | y # ys \<Rightarrow> f (y # ys)) = (if xs = [] then a else f xs)"
  by (cases xs) simp_all

lemma has_record_iff: "has_record recs k \<longleftrightarrow> (\<exists>i g. (i, g) \<in> set recs \<and> k = Str i)"
  unfolding has_record_def filter_empty_conv by auto

lemma matched_grades_if:
  "matched_grades recs k =
     (if has_record recs k then map (\<lambda>(i, g). Str g) (filter (\<lambda>(i, g). k = Str i) recs)
      else [Str ''N/A''])"
  unfolding matched_grades_def has_record_def by (simp add: case_list_if)

lemma matched_grades_iff:
  "v \<in> set (matched_grades recs k) \<longleftrightarrow>
     (\<exists>i g. (i, g) \<in> set recs \<and> k = Str i \<and> v = Str g) \<or>
     (\<not> has_record recs k \<and> v = Str ''N/A'')"
proof (cases "has_record recs k")
  case True
  have "v \<in> set (map (\<lambda>(i, g). Str g) (filter (\<lambda>(i, g). k = Str i) recs))
      \<longleftrightarrow> (\<exists>i g. (i, g) \<in> set recs \<and> k = Str i \<and> v = Str g)"
    by (induction recs) auto
  then show ?thesis using True by (simp add: matched_grades_if)
next
  case False
  then show ?thesis by (auto simp: matched_grades_if has_record_iff)
qed

lemma map_matching_key:
  "map (\<lambda>(i, g). h (Str i) g) (filter (\<lambda>(i, g). k = Str i) recs) =
   map (\<lambda>(i, g). h k g) (filter (\<lambda>(i, g). k = Str i) recs)"
  by (induction recs) auto

lemma left_join_row_fill:
  assumes "kl \<noteq> gl"
  shows "map (\<lambda>r. r(gl := (if r gl = NaN then Str ''N/A'' else r gl))) (left_join_row kl gl recs l l')
    = map (\<lambda>v. l'(kl := (if has_record recs (l ''Index'') then l ''Index'' else NaN), gl := v))
        (matched_grades recs (l ''Index''))"
proof (cases "has_record recs (l ''Index'')")
  case True
  have "left_join_row kl gl recs l l' =
      map (\<lambda>(i, g). l'(kl := Str i, gl := Str g)) (filter (\<lambda>(i, g). l ''Index'' = Str i) recs)"
    using True unfolding left_join_row_def has_record_def by (simp add: case_list_if)
  also have "\<dots> = map (\<lambda>(i, g). l'(kl := l ''Index'', gl := Str g)) (filter (\<lambda>(i, g). l ''Index'' = Str i) recs)"
    by (rule map_matching_key[where h = "\<lambda>k g. l'(kl := k, gl := Str g)"])
  finally show ?thesis using True
    by (simp add: matched_grades_if o_def case_prod_unfold)
next
  case False
  then show ?thesis
    unfolding left_join_row_def has_record_def matched_grades_def by (simp add: case_list_if)
qed

lemma rename_row_other:
  assumes "\<forall>c \<in> set tr. c @ sfx \<noteq> a"
  shows "rename_row tr sfx l a = l a"
proof -
  have "fold (\<lambda>c r'. r'(c @ sfx := l c)) tr r0 a = r0 a" for r0
    using assms by (induction tr arbitrary: r0) auto
  then show ?thesis by (simp add: rename_row_def)
qed

lemma merge_Inr_shape:
  assumes ok: "merge_grades_with_department df recs code = Inr out"
  defines "gc \<equiv> code @ ''_Grade''"
  defines "tr \<equiv> filter (\<lambda>c. c = ''Index_No'') (columns df)"
  defines "kl \<equiv> renamer tr ''_y'' ''Index_No''"
  defines "D \<equiv> (\<lambda>r::row. if ''Index_No'' \<in> set (columns df) then r else r(''Index_No'' := NaN))"
  shows "rows out = concat (map (\<lambda>l. map (\<lambda>v. (D ((rename_row tr ''_x'' l)
              (kl := (if has_record recs (l ''Index'') then l ''Index'' else NaN))))(gc := v))
            (matched_grades recs (l ''Index''))) (rows df))"
    and "columns out = (if ''Index_No'' \<in> set (columns df)
           then map (renamer tr ''_x'') (columns df) @ [''Index_No_y'', gc]
           else columns df @ [gc])"
    and "''Index'' \<in> set (columns df)"
proof -
  have fresh: "gc \<notin> set (columns df)"
    unfolding gc_def by (rule merge_needs_fresh_label[OF ok])
  obtain m where m: "pd_merge_left df recs gc = Inr m"
    using ok by (auto simp: merge_grades_with_department_def Let_def gc_def split: sum.splits)
  have tr: "filter (\<lambda>c. c \<in> set [''Index_No'', gc]) (columns df) = tr"
    unfolding tr_def using fresh by (auto intro: filter_cong)
  have trset: "set tr = (if ''Index_No'' \<in> set (columns df) then {''Index_No''} else {})"
    unfolding tr_def by auto
  have gl: "renamer tr ''_y'' gc = gc"
    using fresh by (simp add: renamer_def tr_def)
  have klgc: "kl \<noteq> gc"
    unfolding kl_def gc_def renamer_def by simp
  note sh = pd_merge_left_Inr[OF m, unfolded tr]
  have cm: "columns m = map (renamer tr ''_x'') (columns df) @ [kl, gc]"
    using sh(1) gl by (simp add: kl_def)
  have rm: "rows m = concat (map (\<lambda>l. left_join_row kl gc recs l (rename_row tr ''_x'' l)) (rows df))"
    using sh(2) gl by (simp add: kl_def)
  show "''Index'' \<in> set (columns df)" by (rule sh(3))
  have in_m: "''Index_No'' \<in> set (columns m) \<longleftrightarrow> ''Index_No'' \<notin> set (columns df)"
    unfolding cm using trset by (auto simp: renamer_def kl_def gc_def)
  have gcm: "gc \<in> set (columns m)" unfolding cm by simp
  let ?fill = "\<lambda>r::row. r(gc := (if r gc = NaN then Str ''N/A'' else r gc))"
  have out: "out = fillna_column gc (Str ''N/A'')
      (if ''Index_No'' \<in> set (columns m) then drop_column ''Index_No'' m else m)"
    using ok m gcm unfolding merge_grades_with_department_def gc_def[symmetric] Let_def
    by (auto simp: drop_column_def gc_def split: if_splits)
  have rows_out: "rows out = map (\<lambda>r. D (?fill r)) (rows m)"
  proof (cases "''Index_No'' \<in> set (columns df)")
    case True
    then show ?thesis using out in_m by (simp add: fillna_column_def D_def)
  next
    case False
    have "gc \<noteq> ''Index_No''" by (simp add: gc_def)
    then have "?fill (r(''Index_No'' := NaN)) = (?fill r)(''Index_No'' := NaN)" for r :: row
      by (auto simp: fun_upd_twist)
    then show ?thesis using out in_m False
      by (simp add: fillna_column_def D_def drop_column_def o_def)
  qed
  have Dgc: "D (r(gc := v)) = (D r)(gc := v)" for r v
    unfolding D_def gc_def by (auto simp: fun_upd_twist)
  show "rows out = concat (map (\<lambda>l. map (\<lambda>v. (D ((rename_row tr ''_x'' l)
              (kl := (if has_record recs (l ''Index'') then l ''Index'' else NaN))))(gc := v))
            (matched_grades recs (l ''Index''))) (rows df))"
  proof -
    have step: "map (\<lambda>r. D (?fill r)) (left_join_row kl gc recs l l') =
        map (\<lambda>v. (D (l'(kl := (if has_record recs (l ''Index'') then l ''Index'' else NaN))))(gc := v))
          (matched_grades recs (l ''Index''))" for l l'
    proof -
      have "map (\<lambda>r. D (?fill r)) (left_join_row kl gc recs l l') =
          map D (map ?fill (left_join_row kl gc recs l l'))"
        by (simp add: o_def)
      also have "\<dots> = map D (map (\<lambda>v. l'(kl := (if has_record recs (l ''Index'') then l ''Index'' else NaN), gc := v))
          (matched_grades recs (l ''Index'')))"
        by (simp only: left_join_row_fill[OF klgc])
      also have "\<dots> = map (\<lambda>v. (D (l'(kl := (if has_record recs (l ''Index'') then l ''Index'' else NaN))))(gc := v))
          (matched_grades recs (l ''Index''))"
        by (simp add: o_def Dgc)
      finally show ?thesis .
    qed
    show ?thesis
      unfolding rows_out rm map_concat by (simp add: o_def step)
  qed
  show "columns out = (if ''Index_No'' \<in> set (columns df)
           then map (renamer tr ''_x'') (columns df) @ [''Index_No_y'', gc]
           else columns df @ [gc])"
  proof (cases "''Index_No'' \<in> set (columns df)")
    case True
    then have "kl = ''Index_No_y''" using trset by (simp add: kl_def renamer_def)
    then show ?thesis using out in_m True cm by (simp add: fillna_column_def)
  next
    case False
    then have "tr = []" using trset by simp
    then have "renamer tr ''_x'' = (\<lambda>c. c)" by (simp add: renamer_def fun_eq_iff)
    with \<open>tr = []\<close> have "kl = ''Index_No''" "map (renamer tr ''_x'') (columns df) = columns df"
      by (simp_all add: kl_def renamer_def)
    moreover have "gc \<noteq> ''Index_No''" by (simp add: gc_def)
    moreover have "filter (\<lambda>c. c \<noteq> ''Index_No'') (columns df) = columns df"
      using False by (auto simp: filter_id_conv)
    ultimately show ?thesis using out in_m False cm
      by (simp add: fillna_column_def drop_column_def)
  qed
qed

lemma merge_Inr_rows_general:
  assumes ok: "merge_grades_with_department df recs code = Inr out"
  shows "\<exists>f. (\<forall>l. f l ''Index'' = l ''Index'') \<and>
     rows out = concat (map (\<lambda>l. map (\<lambda>v. (f l)(code @ ''_Grade'' := v))
                                   (matched_grades recs (l ''Index''))) (rows df))"
proof -
  let ?tr = "filter (\<lambda>c. c = ''Index_No'') (columns df)"
  let ?kl = "renamer ?tr ''_y'' ''Index_No''"
  define f where "f = (\<lambda>l::row. (if ''Index_No'' \<in> set (columns df)
      then (rename_row ?tr ''_x'' l)(?kl := (if has_record recs (l ''Index'') then l ''Index'' else NaN))
      else ((rename_row ?tr ''_x'' l)(?kl := (if has_record recs (l ''Index'') then l ''Index'' else NaN)))
           (''Index_No'' := NaN)))"
  have kl: "?kl \<noteq> ''Index''" by (simp add: renamer_def)
  have "rename_row ?tr ''_x'' l ''Index'' = l ''Index''" for l
    by (rule rename_row_other) simp
  then have a: "\<forall>l. f l ''Index'' = l ''Index''" using kl by (simp add: f_def)
  have b: "rows out = concat (map (\<lambda>l. map (\<lambda>v. (f l)(code @ ''_Grade'' := v))
                                   (matched_grades recs (l ''Index''))) (rows df))"
    using merge_Inr_shape(1)[OF ok] by (simp add: f_def cong: if_cong)
  from a b show ?thesis by (intro exI[of _ f] conjI)
qed

lemma at_most_one_record:
  "distinct (map fst recs) \<Longrightarrow> length (filter (\<lambda>(i, g). k = Str i) recs) \<le> 1"
proof (induction recs)
  case Nil
  then show ?case by simp
next
  case (Cons a recs)
  show ?case
  proof (cases "k = Str (fst a)")
    case True
    have "fst a \<notin> fst ` set recs" using Cons.prems by simp
    then have "\<forall>x \<in> set recs. fst x \<noteq> fst a" by (metis imageI)
    then have "filter (\<lambda>(i, g). k = Str i) recs = []"
      using True by (auto simp: filter_empty_conv case_prod_unfold)
    then show ?thesis using True by (simp add: case_prod_unfold)
  next
    case False
    then show ?thesis using Cons by (simp add: case_prod_unfold)
  qed
qed

lemma matched_single:
  assumes "distinct (map fst recs)"
  shows "\<exists>v. matched_grades recs k = [v]"
proof (cases "has_record recs k")
  case True
  then have "length (filter (\<lambda>(i, g). k = Str i) recs) = 1"
    using at_most_one_record[OF assms, of k] unfolding has_record_def
    by (cases "filter (\<lambda>(i, g). k = Str i) recs") simp_all
  then have "length (matched_grades recs k) = 1"
    using True by (simp add: matched_grades_if)
  then show ?thesis by (cases "matched_grades recs k") simp_all
next
  case False
  then show ?thesis by (simp add: matched_grades_if)
qed

lemma filter_concat_map_if:
  assumes "\<And>l. l \<in> set ls \<Longrightarrow> filter Q (G l) = (if P l then G l else [])"
  shows "filter Q (concat (map G ls)) = concat (map G (filter P ls))"
  using assms by (induction ls) auto

text \<open>
  Records whose student id is not an \<open>Index\<close> of the roster do not change what the
  merge returns.
\<close>

lemma left_join_row_listed:
  assumes "l \<in> set ls"
  shows "left_join_row kl gl (filter (\<lambda>(i, g). Str i \<in> (\<lambda>r. r ''Index'') ` set ls) recs) l l'
       = left_join_row kl gl recs l l'"
proof -
  have in_ls: "l ''Index'' \<in> (\<lambda>r. r ''Index'') ` set ls"
    using assms by (rule imageI)
  have "(Str (fst x) \<in> (\<lambda>r. r ''Index'') ` set ls \<and> l ''Index'' = Str (fst x))
      = (l ''Index'' = Str (fst x))" for x :: grade_record
    using in_ls by (cases "l ''Index'' = Str (fst x)") simp_all
  then have "filter (\<lambda>(i, g). l ''Index'' = Str i) (filter (\<lambda>(i, g). Str i \<in> (\<lambda>r. r ''Index'') ` set ls) recs)
      = filter (\<lambda>(i, g). l ''Index'' = Str i) recs"
    by (simp add: case_prod_unfold)
  then show ?thesis by (simp add: left_join_row_def)
qed

lemma pd_merge_left_listed:
  assumes m: "pd_merge_left df recs gc = Inr m"
  shows "pd_merge_left df (filter (\<lambda>(i, g). Str i \<in> (\<lambda>r. r ''Index'') ` set (rows df)) recs) gc = Inr m"
proof -
  let ?recs' = "filter (\<lambda>(i, g). Str i \<in> (\<lambda>r. r ''Index'') ` set (rows df)) recs"
  define tr where "tr = filter (\<lambda>c. c \<in> set [''Index_No'', gc]) (columns df)"
  define bad where "bad = (tr \<noteq> [] \<and> \<not> distinct (map (renamer tr ''_x'') (columns df)))"
  define kl where "kl = map (renamer tr ''_y'') [''Index_No'', gc] ! 0"
  define gl where "gl = map (renamer tr ''_y'') [''Index_No'', gc] ! 1"
  define numeric where "numeric = (\<forall>r \<in> set (rows df). \<not> is_Str (r ''Index''))"
  have unfold: "pd_merge_left df rs gc =
      (if ''Index'' \<notin> set (columns df) then Inl KeyError
       else if rows df \<noteq> [] \<and> rs \<noteq> [] \<and> numeric then Inl ValueError
       else if bad then Inl MergeError
       else Inr \<lparr>columns = map (renamer tr ''_x'') (columns df) @ map (renamer tr ''_y'') [''Index_No'', gc],
                 rows = concat (map (\<lambda>l. left_join_row kl gl rs l (rename_row tr ''_x'' l)) (rows df))\<rparr>)" for rs
    unfolding pd_merge_left_def Let_def tr_def bad_def kl_def gl_def numeric_def by (rule refl)
  have idx: "''Index'' \<in> set (columns df)" and nb: "\<not> bad"
    and guard: "\<not> (rows df \<noteq> [] \<and> recs \<noteq> [] \<and> numeric)"
    using m unfolding unfold[of recs] by (simp_all split: if_splits)
  have "recs \<noteq> []" if "?recs' \<noteq> []"
    using that by (cases recs) simp_all
  then have guard': "\<not> (rows df \<noteq> [] \<and> ?recs' \<noteq> [] \<and> numeric)"
    using guard by blast
  have rows_eq: "map (\<lambda>l. left_join_row kl gl ?recs' l (rename_row tr ''_x'' l)) (rows df)
      = map (\<lambda>l. left_join_row kl gl recs l (rename_row tr ''_x'' l)) (rows df)"
    by (rule map_cong[OF refl]) (rule left_join_row_listed)
  have "pd_merge_left df ?recs' gc = pd_merge_left df recs gc"
    unfolding unfold[of recs] unfold[of ?recs'] rows_eq using idx nb guard guard' by simp
  then show ?thesis using m by simp
qed

lemma merge_drops_unlisted:
  assumes ok: "merge_grades_with_department df recs code = Inr out"
  shows "merge_grades_with_department df
           (filter (\<lambda>(i, g). Str i \<in> (\<lambda>r. r ''Index'') ` set (rows df)) recs) code = Inr out"
proof -
  obtain m where m: "pd_merge_left df recs (code @ ''_Grade'') = Inr m"
    using ok by (auto simp: merge_grades_with_department_def Let_def split: sum.splits)
  show ?thesis
    using ok unfolding merge_grades_with_department_def Let_def pd_merge_left_listed[OF m] m .
qed

text \<open>
  The merge returns for a roster that has the column \<open>Index\<close> with a string in it (or
  no rows, or no records to join), and has neither the new grade column nor a column
  labelled \<open>Index_No\<close>.
\<close>

lemma renamer_Nil: "renamer [] sfx = (\<lambda>x. x)"
  by (simp add: fun_eq_iff renamer_def)

lemma merge_returns:
  assumes "''Index'' \<in> set (columns df)" "''Index_No'' \<notin> set (columns df)"
    and "code @ ''_Grade'' \<notin> set (columns df)"
    and "rows df = [] \<or> recs = [] \<or> (\<exists>r \<in> set (rows df). is_Str (r ''Index''))"
  shows "\<exists>out. merge_grades_with_department df recs code = Inr out"
proof -
  have tr: "filter (\<lambda>c. c = ''Index_No'' \<or> c = code @ ''_Grade'') (columns df) = []"
    using assms(2,3) by (auto simp: filter_empty_conv)
  have "\<exists>m. pd_merge_left df recs (code @ ''_Grade'') = Inr m \<and>
      columns m = columns df @ [''Index_No'', code @ ''_Grade'']"
    using assms(1,4) unfolding pd_merge_left_def Let_def
    by (auto simp: tr renamer_Nil)
  then show ?thesis
    unfolding merge_grades_with_department_def Let_def
    by (auto simp: drop_column_def)
qed

subsection \<open>Claims about the merge\<close>

text \<open>
  Claim C3, as amended. When no student id occurs twice in the records, the roster has no
  column labelled \<open>Index_No\<close>, and the merge returns, the result has as many rows as the
  roster, its columns are the roster's followed by the one new column
  \<open><module_code>_Grade\<close>, which the roster did not have, and every row keeps the value of
  every column of the roster, position for position.
\<close>

theorem merge_adds_one_column:
  assumes dist: "distinct (map fst recs)"
    and no_key: "''Index_No'' \<notin> set (columns df)"
    and ok: "merge_grades_with_department df recs code = Inr out"
  shows "length (rows out) = length (rows df) \<and>
         columns out = columns df @ [code @ ''_Grade''] \<and>
         code @ ''_Grade'' \<notin> set (columns df) \<and>
         (\<forall>i < length (rows df). \<forall>c \<in> set (columns df). (rows out ! i) c = (rows df ! i) c)"
proof -
  let ?gc = "code @ ''_Grade''"
  have fresh: "?gc \<notin> set (columns df)" by (rule merge_needs_fresh_label[OF ok])
  have tr: "filter (\<lambda>c. c = ''Index_No'') (columns df) = []"
    using no_key by (auto simp: filter_empty_conv)
  define F where "F = (\<lambda>l::row. (l(''Index_No'' := NaN))(?gc := hd (matched_grades recs (l ''Index''))))"
  have one: "map (\<lambda>v. (l(''Index_No'' := NaN))(?gc := v)) (matched_grades recs (l ''Index'')) = [F l]" for l :: row
    using matched_single[OF dist, of "l ''Index''"] by (auto simp: F_def)
  have rows_out: "rows out = map F (rows df)"
    using merge_Inr_shape(1)[OF ok] no_key
    by (simp add: tr rename_row_def renamer_def one)
  have cols_out: "columns out = columns df @ [?gc]"
    using merge_Inr_shape(2)[OF ok] no_key by simp
  have same: "F l c = l c" if "c \<in> set (columns df)" for l c
    using that no_key fresh by (auto simp: F_def)
  show ?thesis using rows_out cols_out fresh same by simp
qed

theorem merge_adds_one_column_witness:
  "\<exists>out. merge_grades_with_department (roster_of [''200145A'', ''200146B'']) [(''200146B'', ''A-'')] ''MA1014'' = Inr out
     \<and> length (rows out) = 2 \<and> columns out = [''Index'', ''MA1014_Grade'']
     \<and> (rows out ! 0) ''Index'' = Str ''200145A'' \<and> (rows out ! 1) ''Index'' = Str ''200146B''"
proof -
  let ?df = "roster_of [''200145A'', ''200146B'']"
  obtain out where ok: "merge_grades_with_department ?df [(''200146B'', ''A-'')] ''MA1014'' = Inr out"
    by (simp add: merge_defs)
  have d: "distinct (map fst [(''200146B'', ''A-'')])" by simp
  have n: "''Index_No'' \<notin> set (columns ?df)" by (simp add: roster_of_def)
  from merge_adds_one_column[OF d n ok] ok show ?thesis
    by (simp add: roster_of_def)
qed

text \<open>
  Claim C3 as stated fails for a record list that names one student twice: the left join
  repeats the student's row once for each record, so a roster of one row comes back with
  two.
\<close>

theorem merge_duplicate_records_add_rows:
  "map_sum id table (merge_grades_with_department (roster_of [''200145A''])
       [(''200145A'', ''A''), (''200145A'', ''B'')] ''CS2023'')
     = Inr ([''Index'', ''CS2023_Grade''], [[Str ''200145A'', Str ''A''], [Str ''200145A'', Str ''B'']])
   \<and> length (rows (roster_of [''200145A''])) = 1"
  by (simp add: merge_defs)

text \<open>
  Claim C4. In the roster a merge returns, every row comes from a roster row with the same
  \<open>Index\<close> and holds in the new grade column the grade of a record with that student
  id, or the sentinel \<open>N/A\<close> when no record has it; records of students the roster does
  not list add no row and can be left out without changing the result, and every roster
  row is still there. Merging the roster of
  200145A and 200146B with the single record (200145A, B+) under CS2023 gives the rows
  (200145A, B+) and (200146B, N/A).
\<close>

theorem merge_grade_or_sentinel:
  "(merge_grades_with_department df recs code = Inr out \<longrightarrow>
      (\<forall>r \<in> set (rows out). \<exists>l \<in> set (rows df). r ''Index'' = l ''Index'' \<and>
          ((\<exists>i g. (i, g) \<in> set recs \<and> r ''Index'' = Str i \<and> r (code @ ''_Grade'') = Str g) \<or>
           ((\<forall>i g. (i, g) \<in> set recs \<longrightarrow> r ''Index'' \<noteq> Str i) \<and>
             r (code @ ''_Grade'') = Str ''N/A''))) \<and>
      (\<forall>l \<in> set (rows df). \<exists>r \<in> set (rows out). r ''Index'' = l ''Index'') \<and>
      merge_grades_with_department df
        (filter (\<lambda>(i, g). Str i \<in> (\<lambda>r. r ''Index'') ` set (rows df)) recs) code = Inr out) \<and>
   map_sum id table (merge_grades_with_department (roster_of [''200145A'', ''200146B''])
       [(''200145A'', ''B+'')] ''CS2023'')
     = Inr ([''Index'', ''CS2023_Grade''],
            [[Str ''200145A'', Str ''B+''], [Str ''200146B'', Str ''N/A'']])"
proof (intro conjI impI)
  assume ok: "merge_grades_with_department df recs code = Inr out"
  let ?gc = "code @ ''_Grade''"
  obtain f where f: "\<And>l. f l ''Index'' = l ''Index''"
    and ro: "rows out = concat (map (\<lambda>l. map (\<lambda>v. (f l)(?gc := v))
                                   (matched_grades recs (l ''Index''))) (rows df))"
    using merge_Inr_rows_general[OF ok] by blast
  have idx: "((f l)(?gc := v)) ''Index'' = l ''Index''" for l v
    using f by simp
  show "\<forall>r \<in> set (rows out). \<exists>l \<in> set (rows df). r ''Index'' = l ''Index'' \<and>
          ((\<exists>i g. (i, g) \<in> set recs \<and> r ''Index'' = Str i \<and> r ?gc = Str g) \<or>
           ((\<forall>i g. (i, g) \<in> set recs \<longrightarrow> r ''Index'' \<noteq> Str i) \<and> r ?gc = Str ''N/A''))"
  proof
    fix r assume "r \<in> set (rows out)"
    then obtain l v where l: "l \<in> set (rows df)" and v: "v \<in> set (matched_grades recs (l ''Index''))"
      and r: "r = (f l)(?gc := v)"
      unfolding ro by auto
    have ri: "r ''Index'' = l ''Index''" unfolding r by (rule idx)
    have rg: "r ?gc = v" unfolding r by simp
    from v have "(\<exists>i g. (i, g) \<in> set recs \<and> l ''Index'' = Str i \<and> v = Str g) \<or>
        (\<not> has_record recs (l ''Index'') \<and> v = Str ''N/A'')"
      by (simp only: matched_grades_iff)
    then have "(\<exists>i g. (i, g) \<in> set recs \<and> r ''Index'' = Str i \<and> r ?gc = Str g) \<or>
           ((\<forall>i g. (i, g) \<in> set recs \<longrightarrow> r ''Index'' \<noteq> Str i) \<and> r ?gc = Str ''N/A'')"
      unfolding ri rg has_record_iff by blast
    with l ri show "\<exists>l \<in> set (rows df). r ''Index'' = l ''Index'' \<and>
          ((\<exists>i g. (i, g) \<in> set recs \<and> r ''Index'' = Str i \<and> r ?gc = Str g) \<or>
           ((\<forall>i g. (i, g) \<in> set recs \<longrightarrow> r ''Index'' \<noteq> Str i) \<and> r ?gc = Str ''N/A''))"
      by blast
  qed
  show "\<forall>l \<in> set (rows df). \<exists>r \<in> set (rows out). r ''Index'' = l ''Index''"
  proof
    fix l assume l: "l \<in> set (rows df)"
    have "matched_grades recs (l ''Index'') \<noteq> []"
      by (simp add: matched_grades_if has_record_def)
    then obtain v where v: "v \<in> set (matched_grades recs (l ''Index''))"
      by (cases "matched_grades recs (l ''Index'')") auto
    have "(f l)(?gc := v) \<in> set (rows out)"
      unfolding ro using l v by auto
    then show "\<exists>r \<in> set (rows out). r ''Index'' = l ''Index''"
      using idx by blast
  qed
  show "merge_grades_with_department df
        (filter (\<lambda>(i, g). Str i \<in> (\<lambda>r. r ''Index'') ` set (rows df)) recs) code = Inr out"
    by (rule merge_drops_unlisted[OF ok])
next
  show "map_sum id table (merge_grades_with_department (roster_of [''200145A'', ''200146B''])
       [(''200145A'', ''B+'')] ''CS2023'')
     = Inr ([''Index'', ''CS2023_Grade''],
            [[Str ''200145A'', Str ''B+''], [Str ''200146B'', Str ''N/A'']])"
    by (simp add: merge_defs)
qed

theorem merge_grade_or_sentinel_witness:
  "\<exists>out. merge_grades_with_department (roster_of [''200145A'', ''200146B''])
            [(''200146B'', ''C+''), (''209999Z'', ''C'')] ''MA1014'' = Inr out \<and>
     (\<forall>r \<in> set (rows out). \<exists>l \<in> set (rows (roster_of [''200145A'', ''200146B''])).
        r ''Index'' = l ''Index'' \<and>
          ((\<exists>i g. (i, g) \<in> set [(''200146B'', ''C+''), (''209999Z'', ''C'')] \<and>
                 r ''Index'' = Str i \<and> r (''MA1014'' @ ''_Grade'') = Str g) \<or>
           ((\<forall>i g. (i, g) \<in> set [(''200146B'', ''C+''), (''209999Z'', ''C'')] \<longrightarrow> r ''Index'' \<noteq> Str i) \<and>
             r (''MA1014'' @ ''_Grade'') = Str ''N/A'')))"
proof -
  let ?df = "roster_of [''200145A'', ''200146B'']"
  let ?recs = "[(''200146B'', ''C+''), (''209999Z'', ''C'')]"
  obtain out where ok: "merge_grades_with_department ?df ?recs ''MA1014'' = Inr out"
    by (simp add: merge_defs)
  note merge_grade_or_sentinel[of ?df ?recs "''MA1014''" out, THEN conjunct1, rule_format, OF ok, THEN conjunct1]
  with ok show ?thesis by (intro exI conjI)
qed

text \<open>
  Claim C5, as amended. The merge keeps every record of a student the records name more
  than once: when the merge returns and the student has one row in the roster, the rows
  of the result with that \<open>Index\<close> carry, in the order of the records, the grade of each
  record with that student id. No record overwrites another.
\<close>

theorem merge_keeps_every_duplicate:
  assumes ok: "merge_grades_with_department df recs code = Inr out"
    and one: "length (filter (\<lambda>l. l ''Index'' = Str i) (rows df)) = 1"
    and some: "i \<in> fst ` set recs"
  shows "map (\<lambda>r. r (code @ ''_Grade'')) (filter (\<lambda>r. r ''Index'' = Str i) (rows out))
       = map (\<lambda>(j, g). Str g) (filter (\<lambda>(j, g). j = i) recs)"
proof -
  let ?gc = "code @ ''_Grade''"
  obtain f where f: "\<And>l. f l ''Index'' = l ''Index''"
    and ro: "rows out = concat (map (\<lambda>l. map (\<lambda>v. (f l)(?gc := v))
                                   (matched_grades recs (l ''Index''))) (rows df))"
    using merge_Inr_rows_general[OF ok] by blast
  define G where "G = (\<lambda>l. map (\<lambda>v. (f l)(?gc := v)) (matched_grades recs (l ''Index'')))"
  have sel: "filter (\<lambda>r. r ''Index'' = Str i) (G l) = (if l ''Index'' = Str i then G l else [])" for l
    using f by (simp add: G_def filter_map o_def)
  have "filter (\<lambda>r. r ''Index'' = Str i) (rows out)
      = concat (map G (filter (\<lambda>l. l ''Index'' = Str i) (rows df)))"
    unfolding ro G_def[symmetric] by (rule filter_concat_map_if) (rule sel)
  moreover obtain l0 where l0: "filter (\<lambda>l. l ''Index'' = Str i) (rows df) = [l0]"
    using one by (cases "filter (\<lambda>l. l ''Index'' = Str i) (rows df)") simp_all
  ultimately have sel_out: "filter (\<lambda>r. r ''Index'' = Str i) (rows out) = G l0" by simp
  have "l0 \<in> set (filter (\<lambda>l. l ''Index'' = Str i) (rows df))" unfolding l0 by simp
  then have key: "l0 ''Index'' = Str i" by simp
  have has: "has_record recs (Str i)"
    using some unfolding has_record_iff by force
  have "map (\<lambda>r. r ?gc) (G l0) = matched_grades recs (Str i)"
    unfolding G_def key by (simp add: o_def)
  also have "\<dots> = map (\<lambda>(j, g). Str g) (filter (\<lambda>(j, g). Str i = Str j) recs)"
    using has by (simp add: matched_grades_if)
  also have "filter (\<lambda>(j, g). Str i = Str j) recs = filter (\<lambda>(j, g). j = i) recs"
    by (rule filter_cong) auto
  finally show ?thesis unfolding sel_out .
qed

theorem merge_keeps_every_duplicate_witness:
  "\<exists>out. merge_grades_with_department (roster_of [''200145A'', ''200146B''])
            [(''200145A'', ''F''), (''200146B'', ''B''), (''200145A'', ''C-'')] ''EN1054'' = Inr out \<and>
     map (\<lambda>r. r ''EN1054_Grade'') (filter (\<lambda>r. r ''Index'' = Str ''200145A'') (rows out))
       = [Str ''F'', Str ''C-'']"
proof -
  let ?df = "roster_of [''200145A'', ''200146B'']"
  let ?recs = "[(''200145A'', ''F''), (''200146B'', ''B''), (''200145A'', ''C-'')]"
  obtain out where ok: "merge_grades_with_department ?df ?recs ''EN1054'' = Inr out"
    by (simp add: merge_defs)
  have one: "length (filter (\<lambda>l. l ''Index'' = Str ''200145A'') (rows ?df)) = 1"
    by (simp add: roster_of_def)
  have some: "''200145A'' \<in> fst ` set ?recs" by simp
  from merge_keeps_every_duplicate[OF ok one some] ok show ?thesis by simp
qed

text \<open>
  Claim C5 as stated fails: with two records for 200146B the student has two rows in the
  result, the first with the grade of the first record, not one row with the grade of the
  last.
\<close>

theorem merge_duplicate_records_not_last_wins:
  "map_sum id table (merge_grades_with_department (roster_of [''200145A'', ''200146B''])
       [(''200146B'', ''C''), (''200145A'', ''B+''), (''200146B'', ''A-'')] ''CS2023'')
     = Inr ([''Index'', ''CS2023_Grade''],
            [[Str ''200145A'', Str ''B+''], [Str ''200146B'', Str ''C''], [Str ''200146B'', Str ''A-'']])"
  by (simp add: merge_defs)

text \<open>
  Claim C10 at a roster that has a column labelled \<open>Index_No\<close>: the join renames the
  roster's column to \<open>Index_No_x\<close>, the records' key stays in the result as
  \<open>Index_No_y\<close>, and the clean-up, which looks for \<open>Index_No\<close>, drops neither.
\<close>

theorem merge_renames_Index_No_column:
  "map_sum id table (merge_grades_with_department roster_with_key_column [(''200145A'', ''B+'')] ''CS2023'')
     = Inr ([''Index'', ''Index_No_x'', ''Index_No_y'', ''CS2023_Grade''],
            [[Str ''200145A'', IntV 1, Str ''200145A'', Str ''B+'']])"
  by (simp add: merge_defs roster_with_key_column_def)

section \<open>calculate\_sgpa\_and\_rank\<close>

lemmas ranking_defs = calculate_sgpa_and_rank_def graded_roster_def table_def set_column_def
  endswith_def sort_values_Rank_def calc_student_sgpa_def sgpa_step_def GRADE_POINTS_def
  py_round_def round_half_even_def rank_min_desc_def num_of_def int_of_def Let_def


subsection \<open>The loop is the weighted mean\<close>







text \<open>
  The row \<open>calculate_sgpa_and_rank\<close> makes of a roster row, given the SGPA column.
\<close>

definition ranked_row :: "string list \<Rightarrow> (string \<rightharpoonup> rat) \<Rightarrow> rat list \<Rightarrow> row \<Rightarrow> row" where
  "ranked_row gcs w sgpas =
     (\<lambda>r. r(''SGPA'' := Num (calc_student_sgpa gcs w r),
            ''Rank'' := IntV (rank_min_desc sgpas (calc_student_sgpa gcs w r))))"

lemma rows_calculate:
  "rows (calculate_sgpa_and_rank df w) =
     (let gcs = filter (\<lambda>col. endswith col ''_Grade'') (columns df)
      in sort_key (\<lambda>r. int_of (r ''Rank''))
           (map (ranked_row gcs w (map (calc_student_sgpa gcs w) (rows df))) (rows df)))"
  by (simp add: calculate_sgpa_and_rank_def set_column_def sort_values_Rank_def Let_def o_def
      num_of_def ranked_row_def)




lemma ranked_row_Rank:
  "ranked_row gcs w sgpas r ''Rank'' = IntV (rank_min_desc sgpas (calc_student_sgpa gcs w r))"
  by (simp add: ranked_row_def)



lemma count_greater_split:
  assumes "v' < (v::rat)" and "\<forall>u \<in> set S. \<not> (v' < u \<and> u < v)"
  shows "length (filter (\<lambda>u. v' < u) S) =
         length (filter (\<lambda>u. v < u) S) + length (filter (\<lambda>u. u = v) S)"
  using assms by (induction S) (auto simp: not_less)

lemma count_greater_mono:
  assumes "v' < (v::rat)" and "v \<in> set S"
  shows "length (filter (\<lambda>u. v < u) S) < length (filter (\<lambda>u. v' < u) S)"
proof -
  have "length (filter (\<lambda>u. v < u) S) + length (filter (\<lambda>u. u = v) S)
      \<le> length (filter (\<lambda>u. v' < u) S)"
    using assms(1) by (induction S) auto
  moreover have "0 < length (filter (\<lambda>u. u = v) S)"
    using assms(2) by (induction S) auto
  ultimately show ?thesis by linarith
qed

lemma count_greater_top:
  assumes "\<forall>u \<in> set S. u \<le> (v::rat)"
  shows "filter (\<lambda>u. v < u) S = []"
  using assms by (auto simp: filter_empty_conv)





subsection \<open>Claims about the ranking\<close>



text \<open>
  Claim C2. Rank is the minimum rank over SGPA descending: rows with equal SGPA have equal
  ranks; a row with a strictly higher SGPA has a strictly smaller rank; the rank of the
  next lower SGPA is the rank of the tie group above it plus the size of that group; the
  highest SGPA has rank 1; and the rows come back in ascending order of Rank. Two students
  tied at the top both get rank 1 and the next student gets rank 3.
\<close>

theorem rank_is_minimum_rank:
  "(\<forall>a \<in> set (rows (calculate_sgpa_and_rank df wts)).
    \<forall>b \<in> set (rows (calculate_sgpa_and_rank df wts)).
      (num_of (a ''SGPA'') = num_of (b ''SGPA'') \<longrightarrow> int_of (a ''Rank'') = int_of (b ''Rank'')) \<and>
      (num_of (b ''SGPA'') < num_of (a ''SGPA'') \<longrightarrow> int_of (a ''Rank'') < int_of (b ''Rank'')) \<and>
      (num_of (b ''SGPA'') < num_of (a ''SGPA'') \<and>
       (\<forall>c \<in> set (rows (calculate_sgpa_and_rank df wts)).
          \<not> (num_of (b ''SGPA'') < num_of (c ''SGPA'') \<and> num_of (c ''SGPA'') < num_of (a ''SGPA'')))
        \<longrightarrow> int_of (b ''Rank'') = int_of (a ''Rank'') +
              int (length (filter (\<lambda>c. num_of (c ''SGPA'') = num_of (a ''SGPA''))
                             (rows (calculate_sgpa_and_rank df wts)))))) \<and>
   (\<forall>a \<in> set (rows (calculate_sgpa_and_rank df wts)).
      (\<exists>s k. a ''SGPA'' = Num s \<and> a ''Rank'' = IntV k) \<and>
      ((\<forall>c \<in> set (rows (calculate_sgpa_and_rank df wts)). num_of (c ''SGPA'') \<le> num_of (a ''SGPA''))
         \<longrightarrow> int_of (a ''Rank'') = 1)) \<and>
   sorted (map (\<lambda>r. int_of (r ''Rank'')) (rows (calculate_sgpa_and_rank df wts))) \<and>
   table (calculate_sgpa_and_rank
            (graded_roster [''CS2023''] [(''200145A'', [''B'']), (''200146B'', [''B'']), (''200147C'', [''C''])])
            [''CS2023'' \<mapsto> 3])
     = ([''Index'', ''CS2023_Grade'', ''SGPA'', ''Rank''],
        [[Str ''200145A'', Str ''B'', Num 3, IntV 1],
         [Str ''200146B'', Str ''B'', Num 3, IntV 1],
         [Str ''200147C'', Str ''C'', Num 2, IntV 3]])"
proof -
  define out where "out = calculate_sgpa_and_rank df wts"
  define gcs where "gcs = filter (\<lambda>col. endswith col ''_Grade'') (columns df)"
  define S where "S = map (calc_student_sgpa gcs wts) (rows df)"
  define F where "F = ranked_row gcs wts S"
  have rows_out: "rows out = sort_key (\<lambda>r. int_of (r ''Rank'')) (map F (rows df))"
    by (simp add: out_def rows_calculate Let_def gcs_def S_def F_def)
  have set_out: "set (rows out) = F ` set (rows df)"
    by (simp add: rows_out)
  have sg: "num_of (F l ''SGPA'') = calc_student_sgpa gcs wts l" for l
    by (simp add: F_def ranked_row_def num_of_def)
  have rk: "int_of (F l ''Rank'') = rank_min_desc S (calc_student_sgpa gcs wts l)" for l
    by (simp add: F_def ranked_row_def int_of_def)
  have inS: "calc_student_sgpa gcs wts l \<in> set S" if "l \<in> set (rows df)" for l
    using that by (simp add: S_def)
  have S_out: "set S = (\<lambda>c. num_of (c ''SGPA'')) ` set (rows out)"
    by (auto simp: S_def set_out sg image_iff)
  have count: "length (filter (\<lambda>c. num_of (c ''SGPA'') = v) (rows out)) = length (filter (\<lambda>u. u = v) S)" for v
  proof -
    have "length (filter (\<lambda>c. num_of (c ''SGPA'') = v) (rows out))
        = length (filter (\<lambda>c. num_of (c ''SGPA'') = v) (map F (rows df)))"
      unfolding rows_out by (simp add: filter_sort)
    also have "\<dots> = length (filter (\<lambda>u. u = v) S)"
      by (simp add: S_def filter_map o_def sg)
    finally show ?thesis .
  qed
  have pair: "(num_of (a ''SGPA'') = num_of (b ''SGPA'') \<longrightarrow> int_of (a ''Rank'') = int_of (b ''Rank'')) \<and>
      (num_of (b ''SGPA'') < num_of (a ''SGPA'') \<longrightarrow> int_of (a ''Rank'') < int_of (b ''Rank'')) \<and>
      (num_of (b ''SGPA'') < num_of (a ''SGPA'') \<and>
       (\<forall>c \<in> set (rows out).
          \<not> (num_of (b ''SGPA'') < num_of (c ''SGPA'') \<and> num_of (c ''SGPA'') < num_of (a ''SGPA'')))
        \<longrightarrow> int_of (b ''Rank'') = int_of (a ''Rank'') +
              int (length (filter (\<lambda>c. num_of (c ''SGPA'') = num_of (a ''SGPA'')) (rows out))))"
    if a: "a \<in> set (rows out)" and b: "b \<in> set (rows out)" for a b
  proof -
    obtain la where la: "la \<in> set (rows df)" "a = F la" using a set_out by blast
    obtain lb where lb: "lb \<in> set (rows df)" "b = F lb" using b set_out by blast
    let ?va = "calc_student_sgpa gcs wts la"
    let ?vb = "calc_student_sgpa gcs wts lb"
    have 1: "?va = ?vb \<longrightarrow> rank_min_desc S ?va = rank_min_desc S ?vb" by simp
    have 2: "?vb < ?va \<longrightarrow> rank_min_desc S ?va < rank_min_desc S ?vb"
      using count_greater_mono[OF _ inS[OF la(1)], of ?vb] by (simp add: rank_min_desc_def)
    have 3: "?vb < ?va \<and> (\<forall>u \<in> set S. \<not> (?vb < u \<and> u < ?va))
        \<longrightarrow> rank_min_desc S ?vb = rank_min_desc S ?va + int (length (filter (\<lambda>u. u = ?va) S))"
      using count_greater_split[of ?vb ?va S] by (simp add: rank_min_desc_def)
    show ?thesis
      unfolding la lb sg rk count using 1 2 3 unfolding S_out by (simp add: sg la lb)
  qed
  have single: "(\<exists>s k. a ''SGPA'' = Num s \<and> a ''Rank'' = IntV k) \<and>
      ((\<forall>c \<in> set (rows out). num_of (c ''SGPA'') \<le> num_of (a ''SGPA'')) \<longrightarrow> int_of (a ''Rank'') = 1)"
    if a: "a \<in> set (rows out)" for a
  proof -
    obtain la where la: "la \<in> set (rows df)" "a = F la" using a set_out by blast
    have "\<exists>s k. a ''SGPA'' = Num s \<and> a ''Rank'' = IntV k"
      unfolding la by (simp add: F_def ranked_row_def)
    moreover have "int_of (a ''Rank'') = 1" if "\<forall>c \<in> set (rows out). num_of (c ''SGPA'') \<le> num_of (a ''SGPA'')"
    proof -
      have "\<forall>u \<in> set S. u \<le> calc_student_sgpa gcs wts la"
        using that unfolding S_out la sg by auto
      then show ?thesis
        unfolding la rk rank_min_desc_def by (simp add: count_greater_top)
    qed
    ultimately show ?thesis by blast
  qed
  have srt: "sorted (map (\<lambda>r. int_of (r ''Rank'')) (rows out))"
    unfolding rows_out by (rule sorted_sort_key)
  have ex: "table (calculate_sgpa_and_rank
            (graded_roster [''CS2023''] [(''200145A'', [''B'']), (''200146B'', [''B'']), (''200147C'', [''C''])])
            [''CS2023'' \<mapsto> 3])
     = ([''Index'', ''CS2023_Grade'', ''SGPA'', ''Rank''],
        [[Str ''200145A'', Str ''B'', Num 3, IntV 1],
         [Str ''200146B'', Str ''B'', Num 3, IntV 1],
         [Str ''200147C'', Str ''C'', Num 2, IntV 3]])"
    by (simp add: ranking_defs)
  from pair single srt ex show ?thesis unfolding out_def by blast
qed

theorem rank_is_minimum_rank_witness:
  "num_of ((rows (calculate_sgpa_and_rank
              (graded_roster [''EN1054''] [(''200147C'', [''C-'']), (''200145A'', [''A'']), (''200146B'', [''A+''])])
              [''EN1054'' \<mapsto> 2]) ! 2) ''SGPA'')
     < num_of ((rows (calculate_sgpa_and_rank
              (graded_roster [''EN1054''] [(''200147C'', [''C-'']), (''200145A'', [''A'']), (''200146B'', [''A+''])])
              [''EN1054'' \<mapsto> 2]) ! 0) ''SGPA'') \<and>
   int_of ((rows (calculate_sgpa_and_rank
              (graded_roster [''EN1054''] [(''200147C'', [''C-'']), (''200145A'', [''A'']), (''200146B'', [''A+''])])
              [''EN1054'' \<mapsto> 2]) ! 2) ''Rank'') = 1 + 2"
proof -
  let ?df = "graded_roster [''EN1054''] [(''200147C'', [''C-'']), (''200145A'', [''A'']), (''200146B'', [''A+''])]"
  let ?w = "[''EN1054'' \<mapsto> (2::rat)]"
  define out where "out = calculate_sgpa_and_rank ?df ?w"
  have tbl: "table out = ([''Index'', ''EN1054_Grade'', ''SGPA'', ''Rank''],
        [[Str ''200145A'', Str ''A'', Num 4, IntV 1],
         [Str ''200146B'', Str ''A+'', Num 4, IntV 1],
         [Str ''200147C'', Str ''C-'', Num (17 / 10), IntV 3]])"
    unfolding out_def by (simp add: ranking_defs)
  from tbl obtain r1 r2 r3 where rs: "rows out = [r1, r2, r3]"
    and r1: "r1 ''SGPA'' = Num 4" "r1 ''Rank'' = IntV 1"
    and r2: "r2 ''SGPA'' = Num 4"
    and r3: "r3 ''SGPA'' = Num (17 / 10)"
    by (auto simp: table_def map_eq_Cons_conv)
  have a: "r1 \<in> set (rows out)" and b: "r3 \<in> set (rows out)" by (simp_all add: rs)
  have lt: "num_of (r3 ''SGPA'') < num_of (r1 ''SGPA'')"
    by (simp add: r1 r3 num_of_def)
  have gap: "\<forall>c \<in> set (rows out).
          \<not> (num_of (r3 ''SGPA'') < num_of (c ''SGPA'') \<and> num_of (c ''SGPA'') < num_of (r1 ''SGPA''))"
    by (simp add: rs r1 r2 r3 num_of_def)
  have "int_of (r3 ''Rank'') = int_of (r1 ''Rank'') +
      int (length (filter (\<lambda>c. num_of (c ''SGPA'') = num_of (r1 ''SGPA'')) (rows out)))"
    using rank_is_minimum_rank[of ?df ?w, folded out_def, THEN conjunct1, rule_format, OF a b]
      lt gap by blast
  then have "int_of (r3 ''Rank'') = 1 + 2"
    by (simp add: rs r1 r2 r3 num_of_def int_of_def)
  with lt show ?thesis unfolding out_def[symmetric] by (simp add: rs)
qed


section \<open>The extractor\<close>

lemmas grades_defs = parse_grades_def grade_pattern_at_def grade_token_at_def sanitize_string_def
  greedy_spaces_def is_upper_def is_digit_def is_space_def GRADE_POINTS_def


subsection \<open>What a match of the grade pattern holds\<close>






subsection \<open>The header search against the occurrence of a header\<close>
























subsection \<open>Claims about the extractor\<close>




text \<open>
  The pattern has no alternative for the grade AB of \<open>GRADE_POINTS\<close>: on a line with
  200145A and AB the letter alternative matches the A and the match ends there.
\<close>

lemma parse_grades_AB: "parse_grades ''200145A AB'' = [(''200145A'', ''A'')]"
  by (simp add: grades_defs)




section \<open>Adding a result document\<close>

text \<open>
  Claim C9. When the text extraction gives the empty text, or the text holds no grade
  record, \<open>process_pdf\<close> returns no grades frame, and the handler reports that it could
  not extract grades and leaves the session state, the roster with it, as it was,
  whatever the merge step would do.
\<close>

theorem no_records_no_merge:
  "extract_text pdf_bytes = [] \<or> parse_grades (extract_text pdf_bytes) = [] \<longrightarrow>
     fst (process_pdf extract_text pdf_bytes filename) = None \<and>
     add_result extract_text pdf_bytes filename new_weight st = (Could_not_extract, st) \<and>
     (\<forall>merge_step. add_result_with merge_step extract_text pdf_bytes filename new_weight st
        = (Could_not_extract, st))"
  by (auto simp: process_pdf_def add_result_def add_result_with_def Let_def split: prod.splits)

theorem no_records_no_merge_witness:
  "parse_grades (id ''Summary page'') = [] \<and>
   add_result id ''Summary page'' ''results.pdf'' 3
      \<lparr>department_df = roster_of [''200145A''], weights = Map.empty, processed_modules = []\<rparr>
     = (Could_not_extract,
        \<lparr>department_df = roster_of [''200145A''], weights = Map.empty, processed_modules = []\<rparr>)"
proof -
  let ?st = "\<lparr>department_df = roster_of [''200145A''], weights = Map.empty, processed_modules = []\<rparr>"
  have p: "parse_grades (id ''Summary page'') = []"
    by (simp add: grades_defs)
  then have d: "id ''Summary page'' = [] \<or> parse_grades (id ''Summary page'') = []" ..
  note no_records_no_merge[of id "''Summary page''" "''results.pdf''" 3 ?st,
      THEN mp, OF d, THEN conjunct2, THEN conjunct1]
  with p show ?thesis by (rule conjI)
qed

end
